theory Spec2Isabelle
  imports Main
begin

unbundle bit_operations_syntax

section \<open>C data: bytes, strings, pointers, faults\<close>

text \<open>
  A C buffer is modelled by the list of its bytes; the terminating NUL follows the last
  element and is not stored. A cursor (\<open>const char *\<close>) into a buffer is the suffix that
  starts at the cursor, so \<open>cur + n\<close> is \<open>drop n cur\<close> and the difference \<open>cur - start\<close>
  of two cursors into the same buffer is \<open>length start - length cur\<close>.

  Plain \<open>char\<close> is taken to be signed and eight bits wide, as on x86 and x86-64;
  \<open>c_int\<close> is the integer promotion of a \<open>char\<close> and \<open>c_char\<close> the conversion back.
  Allocation (\<open>malloc\<close>, \<open>strndup\<close>, \<open>realloc\<close>) is assumed to succeed.
\<close>

datatype fault = Invalid_Free | Out_Of_Bounds | Null_Dereference

definition and_then :: "fault + 'a \<Rightarrow> ('a \<Rightarrow> fault + 'b) \<Rightarrow> fault + 'b" where
  "and_then m f = (case m of Inl e \<Rightarrow> Inl e | Inr x \<Rightarrow> f x)"

definition c_int :: "char \<Rightarrow> int" where
  "c_int c = (let n = of_char c in if n < 128 then n else n - 256)"

definition c_char :: "int \<Rightarrow> char" where
  "c_char i = char_of i"

definition c_uchar :: "int \<Rightarrow> int" where
  "c_uchar i = i mod 256"

fun peek :: "string \<Rightarrow> char" where
  "peek [] = CHR 0x00"
| "peek (c # cs) = c"

definition c_str :: "string \<Rightarrow> string" where
  "c_str bytes = takeWhile (\<lambda>c. c \<noteq> CHR 0x00) bytes"

definition strlen :: "string \<Rightarrow> nat" where
  "strlen s = length (c_str s)"

definition strndup :: "string \<Rightarrow> nat \<Rightarrow> string" where
  "strndup s n = c_str (take n s)"

definition strchr :: "string \<Rightarrow> char \<Rightarrow> bool" where
  "strchr s c = (c \<in> set (c_str s) \<or> c = CHR 0x00)"

text \<open>
  A \<open>char *\<close> field of the record is \<open>NULL\<close>, a live allocation holding a C string, or
  the marker \<open>0xeeeeeeee\<close> that the macro \<open>FREE\<close> leaves behind. Passing the marker to
  \<open>free\<close> is undefined behaviour and is reported as the fault \<open>Invalid_Free\<close>.
\<close>

datatype ptr = Null | Ptr string | Freed

text \<open>\<open>if (p != NULL) free(p);\<close>\<close>

fun release :: "ptr \<Rightarrow> fault + unit" where
  "release Null = Inr ()"
| "release (Ptr s) = Inr ()"
| "release Freed = Inl Invalid_Free"

text \<open>The macro \<open>FREE(ptr)\<close>, guarded by \<open>ptr != NULL\<close>: the new value of \<open>ptr\<close>.\<close>

fun FREE :: "ptr \<Rightarrow> fault + ptr" where
  "FREE Null = Inr Null"
| "FREE (Ptr s) = Inr Freed"
| "FREE Freed = Inl Invalid_Free"

section \<open>Character classes of uri.h\<close>

definition IS_LOWALPHA :: "char \<Rightarrow> bool" where
  "IS_LOWALPHA x = (c_int x \<ge> c_int CHR ''a'' \<and> c_int x \<le> c_int CHR ''z'')"

definition IS_UPALPHA :: "char \<Rightarrow> bool" where
  "IS_UPALPHA x = (c_int x \<ge> c_int CHR ''A'' \<and> c_int x \<le> c_int CHR ''Z'')"

definition IS_ALPHA :: "char \<Rightarrow> bool" where
  "IS_ALPHA x = (IS_LOWALPHA x \<or> IS_UPALPHA x)"

definition IS_DIGIT :: "char \<Rightarrow> bool" where
  "IS_DIGIT x = (c_int x \<ge> c_int CHR ''0'' \<and> c_int x \<le> c_int CHR ''9'')"

definition IS_ALPHANUM :: "char \<Rightarrow> bool" where
  "IS_ALPHANUM x = (IS_ALPHA x \<or> IS_DIGIT x)"

definition IS_MARK :: "char \<Rightarrow> bool" where
  "IS_MARK x = (x = CHR ''-'' \<or> x = CHR ''_'' \<or> x = CHR ''.'' \<or> x = CHR ''!'' \<or>
     x = CHR ''~'' \<or> x = CHR ''*'' \<or> x = CHR 0x27 \<or> x = CHR ''('' \<or> x = CHR '')'')"

definition IS_UNRESERVED :: "char \<Rightarrow> bool" where
  "IS_UNRESERVED x = (IS_ALPHANUM x \<or> IS_MARK x)"

definition IS_UNWISE :: "string \<Rightarrow> bool" where
  "IS_UNWISE p = (peek p = CHR ''{'' \<or> peek p = CHR ''}'' \<or> peek p = CHR ''|'' \<or>
     peek p = CHR 0x5C \<or> peek p = CHR ''^'' \<or> peek p = CHR ''['' \<or>
     peek p = CHR '']'' \<or> peek p = CHR ''`'')"

definition ISA_DIGIT :: "string \<Rightarrow> bool" where
  "ISA_DIGIT p = (c_int (peek p) \<ge> c_int CHR ''0'' \<and> c_int (peek p) \<le> c_int CHR ''9'')"

definition ISA_ALPHA :: "string \<Rightarrow> bool" where
  "ISA_ALPHA p = ((c_int (peek p) \<ge> c_int CHR ''a'' \<and> c_int (peek p) \<le> c_int CHR ''z'') \<or>
     (c_int (peek p) \<ge> c_int CHR ''A'' \<and> c_int (peek p) \<le> c_int CHR ''Z''))"

definition ISA_HEXDIG :: "string \<Rightarrow> bool" where
  "ISA_HEXDIG p = (ISA_DIGIT p \<or>
     (c_int (peek p) \<ge> c_int CHR ''a'' \<and> c_int (peek p) \<le> c_int CHR ''f'') \<or>
     (c_int (peek p) \<ge> c_int CHR ''A'' \<and> c_int (peek p) \<le> c_int CHR ''F''))"

definition ISA_SUB_DELIM :: "string \<Rightarrow> bool" where
  "ISA_SUB_DELIM p = (peek p = CHR ''!'' \<or> peek p = CHR ''$'' \<or> peek p = CHR ''&'' \<or>
     peek p = CHR ''('' \<or> peek p = CHR '')'' \<or> peek p = CHR ''*'' \<or>
     peek p = CHR ''+'' \<or> peek p = CHR '','' \<or> peek p = CHR '';'' \<or>
     peek p = CHR ''='' \<or> peek p = CHR 0x27)"

definition ISA_UNRESERVED :: "string \<Rightarrow> bool" where
  "ISA_UNRESERVED p = (ISA_ALPHA p \<or> ISA_DIGIT p \<or> peek p = CHR ''-'' \<or>
     peek p = CHR ''.'' \<or> peek p = CHR ''_'' \<or> peek p = CHR ''~'')"

definition ISA_PCT_ENCODED :: "string \<Rightarrow> bool" where
  "ISA_PCT_ENCODED p = (peek p = CHR ''%'' \<and> ISA_HEXDIG (drop 1 p) \<and> ISA_HEXDIG (drop 2 p))"

definition ISA_PCHAR :: "string \<Rightarrow> bool" where
  "ISA_PCHAR p = (ISA_UNRESERVED p \<or> ISA_PCT_ENCODED p \<or> ISA_SUB_DELIM p \<or>
     peek p = CHR '':'' \<or> peek p = CHR ''@'')"

definition is_hex :: "char \<Rightarrow> bool" where
  "is_hex c = ((c_int c \<ge> c_int CHR ''0'' \<and> c_int c \<le> c_int CHR ''9'') \<or>
     (c_int c \<ge> c_int CHR ''a'' \<and> c_int c \<le> c_int CHR ''f'') \<or>
     (c_int c \<ge> c_int CHR ''A'' \<and> c_int c \<le> c_int CHR ''F''))"

text \<open>\<open>NEXT(p)\<close>: step over one logical character, three bytes for an escape.\<close>

fun NEXT :: "string \<Rightarrow> string" where
  "NEXT p = (if peek p = CHR ''%'' then drop 3 p else drop 1 p)"

section \<open>The percent codec\<close>

text \<open>
  The value of one hexadecimal digit, as the three-way \<open>if\<close> of
  \<open>minio_uri_string_unescape\<close> computes it. The source has no final \<open>else\<close>; it is not
  reached, because the digit has passed \<open>is_hex\<close>.
\<close>

definition hex_value :: "char \<Rightarrow> int" where
  "hex_value c =
     (if c_int c \<ge> c_int CHR ''0'' \<and> c_int c \<le> c_int CHR ''9'' then c_int c - c_int CHR ''0''
      else if c_int c \<ge> c_int CHR ''a'' \<and> c_int c \<le> c_int CHR ''f'' then c_int c - c_int CHR ''a'' + 10
      else if c_int c \<ge> c_int CHR ''A'' \<and> c_int c \<le> c_int CHR ''F'' then c_int c - c_int CHR ''A'' + 10
      else 0)"

text \<open>
  The loop \<open>while (len > 0)\<close> of \<open>minio_uri_string_unescape\<close>: the bytes written to the
  output buffer. The loop does not look for the terminator: with \<open>len\<close> one more than the
  buffer's length it copies the NUL, and beyond that it reads past the buffer.
\<close>

fun unescape_loop :: "nat \<Rightarrow> string \<Rightarrow> fault + string" where
  "unescape_loop 0 inp = Inr []"
| "unescape_loop (Suc n) [] = (if n = 0 then Inr [CHR 0x00] else Inl Out_Of_Bounds)"
| "unescape_loop (Suc n) (c # cs) =
     (if Suc n > 2 \<and> c = CHR ''%'' \<and> is_hex (peek cs) \<and> is_hex (peek (drop 1 cs))
      then and_then (unescape_loop (Suc n - 3) (drop 2 cs))
             (\<lambda>out. Inr (c_char (hex_value (peek cs) * 16 + hex_value (peek (drop 1 cs))) # out))
      else and_then (unescape_loop n cs) (\<lambda>out. Inr (c # out)))"

text \<open>
  \<open>minio_uri_string_unescape(str, len, target)\<close>. The result is the C string held by the
  output buffer; \<open>None\<close> is \<open>NULL\<close>. The bytes written do not depend on \<open>target\<close>, which
  only chooses the buffer, so the parameter is left out.
\<close>

definition minio_uri_string_unescape :: "string option \<Rightarrow> int \<Rightarrow> fault + string option" where
  "minio_uri_string_unescape str len =
     (case str of
        None \<Rightarrow> Inr None
      | Some s \<Rightarrow>
          (let len' = (if len \<le> 0 then int (strlen s) else len)
           in if len' < 0 then Inr None
              else and_then (unescape_loop (nat len') s) (\<lambda>out. Inr (Some (c_str out)))))"

text \<open>One hexadecimal digit of the escaper; \<open>val\<close> is an \<open>unsigned char\<close>.\<close>

definition hex_digit :: "int \<Rightarrow> char" where
  "hex_digit val =
     (if val \<le> 9 then c_char (c_int CHR ''0'' + val) else c_char (c_int CHR ''A'' + val - 10))"

text \<open>
  The loop \<open>while (*in != 0)\<close> of \<open>minio_uri_string_escape\<close>. \<open>ch\<close> is a plain \<open>char\<close>:
  \<open>ch >> 4\<close> and \<open>ch & 0xF\<close> are computed on its promotion to \<open>int\<close> and then stored in
  the \<open>unsigned char val\<close>.
\<close>

fun escape_loop :: "string \<Rightarrow> string \<Rightarrow> string" where
  "escape_loop [] list = []"
| "escape_loop (ch # rest) list =
     (if ch = CHR 0x00 then []
      else if ch \<noteq> CHR ''@'' \<and> \<not> IS_UNRESERVED ch \<and> \<not> strchr list ch
      then CHR ''%'' # hex_digit (c_uchar (drop_bit 4 (c_int ch))) #
             hex_digit (c_uchar (c_int ch AND 15)) # escape_loop rest list
      else ch # escape_loop rest list)"

definition minio_uri_string_escape :: "string option \<Rightarrow> string \<Rightarrow> string option" where
  "minio_uri_string_escape str list =
     (case str of
        None \<Rightarrow> None
      | Some s \<Rightarrow>
          if peek s = CHR 0x00 then Some []
          else if \<not> (int (strlen s) > 0) then None
          else Some (c_str (escape_loop s list)))"

section \<open>The URI record\<close>

record bURI =
  scheme :: ptr
  opaque :: ptr
  authority :: ptr
  server :: ptr
  user :: ptr
  port :: int
  path :: ptr
  fragment :: ptr
  cleanup :: int
  query :: ptr
  query_raw :: ptr

text \<open>\<open>minio_uri_new\<close>: a record filled with zero bytes.\<close>

definition minio_uri_new :: bURI where
  "minio_uri_new = \<lparr>scheme = Null, opaque = Null, authority = Null, server = Null,
     user = Null, port = 0, path = Null, fragment = Null, cleanup = 0, query = Null,
     query_raw = Null\<rparr>"

text \<open>
  The sink \<open>bURI *uri\<close> may be \<open>NULL\<close> (\<open>None\<close>): \<open>on_record\<close> is the block
  \<open>if (uri != NULL) { ... }\<close>.
\<close>

definition on_record :: "bURI option \<Rightarrow> (bURI \<Rightarrow> fault + bURI) \<Rightarrow> fault + bURI option" where
  "on_record uri f =
     (case uri of None \<Rightarrow> Inr None | Some u \<Rightarrow> and_then (f u) (\<lambda>u'. Inr (Some u')))"

text \<open>
  The macro \<open>URI_TRIM\<close>, in the order of the source. It does not touch \<open>query_raw\<close>,
  \<open>port\<close> or \<open>cleanup\<close>.
\<close>

definition URI_TRIM :: "bURI option \<Rightarrow> fault + bURI option" where
  "URI_TRIM uri = on_record uri (\<lambda>u.
     and_then (FREE (scheme u)) (\<lambda>p1.
     and_then (FREE (server u)) (\<lambda>p2.
     and_then (FREE (user u)) (\<lambda>p3.
     and_then (FREE (path u)) (\<lambda>p4.
     and_then (FREE (fragment u)) (\<lambda>p5.
     and_then (FREE (opaque u)) (\<lambda>p6.
     and_then (FREE (authority u)) (\<lambda>p7.
     and_then (FREE (query u)) (\<lambda>p8.
       Inr (u\<lparr>scheme := p1, server := p2, user := p3, path := p4, fragment := p5,
              opaque := p6, authority := p7, query := p8\<rparr>))))))))))"

text \<open>
  The value a matcher stores for the bytes between \<open>start\<close> and \<open>cur\<close>:
  \<open>strndup(start, cur - start)\<close> when bit 1 of \<open>cleanup\<close> is set, and
  \<open>minio_uri_string_unescape(start, cur - start, NULL)\<close> otherwise.
\<close>

definition capture :: "bURI \<Rightarrow> string \<Rightarrow> string \<Rightarrow> fault + ptr" where
  "capture u start cur =
     (if cleanup u AND 2 \<noteq> 0 then Inr (Ptr (strndup start (length start - length cur)))
      else and_then
             (minio_uri_string_unescape (Some start) (int (length start) - int (length cur)))
             (\<lambda>r. Inr (case r of None \<Rightarrow> Null | Some s \<Rightarrow> Ptr s)))"

section \<open>The production matchers\<close>

text \<open>
  A matcher takes the sink and the cursor \<open>*str\<close> and returns its return code, the sink
  and the new \<open>*str\<close>. The cursor cell \<open>str\<close> itself is the address of a local variable
  at every call, so the branch \<open>str == NULL\<close> of each matcher is not taken.
\<close>

type_synonym matched = "int \<times> bURI option \<times> string"

subsection \<open>scheme\<close>

fun scheme_loop :: "string \<Rightarrow> string" where
  "scheme_loop [] = []"
| "scheme_loop (c # cs) =
     (if ISA_ALPHA (c # cs) \<or> ISA_DIGIT (c # cs) \<or> c = CHR ''+'' \<or> c = CHR ''-'' \<or> c = CHR ''.''
      then scheme_loop cs else c # cs)"

definition minio_rfc3986_scheme :: "bURI option \<Rightarrow> string \<Rightarrow> fault + matched" where
  "minio_rfc3986_scheme uri str =
     (if \<not> ISA_ALPHA str then Inr (2, uri, str)
      else let cur = scheme_loop (drop 1 str)
           in and_then
                (on_record uri (\<lambda>u.
                   and_then (release (scheme u)) (\<lambda>_.
                     Inr (u\<lparr>scheme := Ptr (strndup str (length str - length cur))\<rparr>))))
                (\<lambda>uri'. Inr (0, uri', cur)))"

subsection \<open>fragment and query\<close>

definition unwise_allowed :: "bURI option \<Rightarrow> string \<Rightarrow> bool" where
  "unwise_allowed uri cur =
     (case uri of None \<Rightarrow> False | Some u \<Rightarrow> cleanup u AND 1 \<noteq> 0 \<and> IS_UNWISE cur)"

fun fragment_loop :: "bURI option \<Rightarrow> string \<Rightarrow> string" where
  "fragment_loop uri [] = []"
| "fragment_loop uri (c # cs) =
     (if ISA_PCHAR (c # cs) \<or> c = CHR ''/'' \<or> c = CHR ''?'' \<or> c = CHR ''['' \<or> c = CHR '']'' \<or>
         unwise_allowed uri (c # cs)
      then fragment_loop uri (NEXT (c # cs)) else c # cs)"

definition minio_rfc3986_fragment :: "bURI option \<Rightarrow> string \<Rightarrow> fault + matched" where
  "minio_rfc3986_fragment uri str =
     (let cur = fragment_loop uri str
      in and_then
           (on_record uri (\<lambda>u.
              and_then (release (fragment u)) (\<lambda>_.
              and_then (capture u str cur) (\<lambda>p. Inr (u\<lparr>fragment := p\<rparr>)))))
           (\<lambda>uri'. Inr (0, uri', cur)))"

fun query_loop :: "bURI option \<Rightarrow> string \<Rightarrow> string" where
  "query_loop uri [] = []"
| "query_loop uri (c # cs) =
     (if ISA_PCHAR (c # cs) \<or> c = CHR ''/'' \<or> c = CHR ''?'' \<or> unwise_allowed uri (c # cs)
      then query_loop uri (NEXT (c # cs)) else c # cs)"

definition minio_rfc3986_query :: "bURI option \<Rightarrow> string \<Rightarrow> fault + matched" where
  "minio_rfc3986_query uri str =
     (let cur = query_loop uri str
      in and_then
           (on_record uri (\<lambda>u.
              and_then (release (query u)) (\<lambda>_.
              and_then (capture u str cur) (\<lambda>p.
              and_then (release (query_raw u)) (\<lambda>_.
                Inr (u\<lparr>query := p,
                       query_raw := Ptr (strndup str (length str - length cur))\<rparr>))))))
           (\<lambda>uri'. Inr (0, uri', cur)))"

subsection \<open>port\<close>

text \<open>
  \<open>port\<close> is an \<open>int\<close>; the accumulation \<open>port * 10 + digit\<close> is taken modulo \<open>2 ^ 32\<close>
  in two's complement, as the compiled code wraps.
\<close>

definition wrap32 :: "int \<Rightarrow> int" where
  "wrap32 i = signed_take_bit 31 i"

fun port_loop :: "bURI option \<Rightarrow> string \<Rightarrow> bURI option \<times> string" where
  "port_loop uri [] = (uri, [])"
| "port_loop uri (c # cs) =
     (if ISA_DIGIT (c # cs)
      then port_loop
             (map_option (\<lambda>u. u\<lparr>port := wrap32 (port u * 10 + (c_int c - c_int CHR ''0''))\<rparr>) uri) cs
      else (uri, c # cs))"

definition minio_rfc3986_port :: "bURI option \<Rightarrow> string \<Rightarrow> matched" where
  "minio_rfc3986_port uri str =
     (if ISA_DIGIT str
      then (case port_loop (map_option (\<lambda>u. u\<lparr>port := 0\<rparr>) uri) str of
              (uri', cur) \<Rightarrow> (0, uri', cur))
      else (1, uri, str))"

subsection \<open>userinfo\<close>

fun user_info_loop :: "string \<Rightarrow> string" where
  "user_info_loop [] = []"
| "user_info_loop (c # cs) =
     (if ISA_UNRESERVED (c # cs) \<or> ISA_PCT_ENCODED (c # cs) \<or> ISA_SUB_DELIM (c # cs) \<or>
         c = CHR '':''
      then user_info_loop (NEXT (c # cs)) else c # cs)"

definition minio_rfc3986_user_info :: "bURI option \<Rightarrow> string \<Rightarrow> fault + matched" where
  "minio_rfc3986_user_info uri str =
     (let cur = user_info_loop str
      in if peek cur = CHR ''@''
         then and_then
                (on_record uri (\<lambda>u.
                   and_then (release (user u)) (\<lambda>_.
                   and_then (capture u str cur) (\<lambda>p. Inr (u\<lparr>user := p\<rparr>)))))
                (\<lambda>uri'. Inr (0, uri', cur))
         else Inr (1, uri, str))"

subsection \<open>dec-octet and host\<close>

definition minio_rfc3986_dec_octet :: "string \<Rightarrow> int \<times> string" where
  "minio_rfc3986_dec_octet cur =
     (if \<not> ISA_DIGIT cur then (1, cur)
      else if \<not> ISA_DIGIT (drop 1 cur) then (0, drop 1 cur)
      else if peek cur \<noteq> CHR ''0'' \<and> ISA_DIGIT (drop 1 cur) \<and> \<not> ISA_DIGIT (drop 2 cur)
        then (0, drop 2 cur)
      else if peek cur = CHR ''1'' \<and> ISA_DIGIT (drop 1 cur) \<and> ISA_DIGIT (drop 2 cur)
        then (0, drop 3 cur)
      else if peek cur = CHR ''2'' \<and> c_int (peek (drop 1 cur)) \<ge> c_int CHR ''0'' \<and>
              c_int (peek (drop 1 cur)) \<le> c_int CHR ''4'' \<and> ISA_DIGIT (drop 2 cur)
        then (0, drop 3 cur)
      else if peek cur = CHR ''2'' \<and> peek (drop 1 cur) = CHR ''5'' \<and>
              c_int (peek (drop 2 cur)) \<ge> c_int CHR ''0'' \<and>
              c_int (peek (drop 1 cur)) \<le> c_int CHR ''5''
        then (0, drop 3 cur)
      else (1, cur))"

text \<open>
  The IPv4 attempt of \<open>minio_rfc3986_host\<close>: \<open>Some cur\<close> is the jump to \<open>found\<close>,
  \<open>None\<close> the jump to \<open>notipv4\<close>. Only the first dot is stepped over (\<open>cur++\<close>).
\<close>

definition host_ipv4 :: "string \<Rightarrow> string option" where
  "host_ipv4 cur0 =
     (case minio_rfc3986_dec_octet cur0 of (r1, cur1) \<Rightarrow>
        if r1 \<noteq> 0 then None
        else if peek cur1 \<noteq> CHR ''.'' then None
        else (case minio_rfc3986_dec_octet (drop 1 cur1) of (r2, cur2) \<Rightarrow>
          if r2 \<noteq> 0 then None
          else if peek cur2 \<noteq> CHR ''.'' then None
          else (case minio_rfc3986_dec_octet cur2 of (r3, cur3) \<Rightarrow>
            if r3 \<noteq> 0 then None
            else if peek cur3 \<noteq> CHR ''.'' then None
            else (case minio_rfc3986_dec_octet cur3 of (r4, cur4) \<Rightarrow>
              if r4 \<noteq> 0 then None else Some cur4))))"

fun host_bracket_loop :: "string \<Rightarrow> string" where
  "host_bracket_loop [] = []"
| "host_bracket_loop (c # cs) =
     (if c \<noteq> CHR '']'' \<and> c \<noteq> CHR 0x00 then host_bracket_loop cs else c # cs)"

fun host_reg_name_loop :: "string \<Rightarrow> string" where
  "host_reg_name_loop [] = []"
| "host_reg_name_loop (c # cs) =
     (if ISA_UNRESERVED (c # cs) \<or> ISA_PCT_ENCODED (c # cs) \<or> ISA_SUB_DELIM (c # cs)
      then host_reg_name_loop (NEXT (c # cs)) else c # cs)"

text \<open>The code at the label \<open>found\<close>; \<open>host\<close> is the cursor at entry.\<close>

definition host_found :: "bURI option \<Rightarrow> string \<Rightarrow> string \<Rightarrow> fault + matched" where
  "host_found uri host cur =
     and_then
       (on_record uri (\<lambda>u.
          and_then (release (authority u)) (\<lambda>_.
          and_then (release (server u)) (\<lambda>_.
            if length cur \<noteq> length host
            then and_then (capture u host cur) (\<lambda>p. Inr (u\<lparr>authority := Null, server := p\<rparr>))
            else Inr (u\<lparr>authority := Null, server := Null\<rparr>)))))
       (\<lambda>uri'. Inr (0, uri', cur))"

definition minio_rfc3986_host :: "bURI option \<Rightarrow> string \<Rightarrow> fault + matched" where
  "minio_rfc3986_host uri str =
     (if peek str = CHR ''[''
      then (let cur = host_bracket_loop (drop 1 str)
            in if peek cur \<noteq> CHR '']'' then Inr (1, uri, str)
               else host_found uri str (drop 1 cur))
      else (case (if ISA_DIGIT str then host_ipv4 str else None) of
              Some cur \<Rightarrow> host_found uri str cur
            | None \<Rightarrow> host_found uri str (host_reg_name_loop str)))"

subsection \<open>authority\<close>

definition minio_rfc3986_authority :: "bURI option \<Rightarrow> string \<Rightarrow> fault + matched" where
  "minio_rfc3986_authority uri str =
     and_then (minio_rfc3986_user_info uri str) (\<lambda>(ret, uri1, cur1).
       let cur = (if ret \<noteq> 0 then str else if peek cur1 \<noteq> CHR ''@'' then str
                  else drop 1 cur1)
       in and_then (minio_rfc3986_host uri1 cur) (\<lambda>(ret2, uri2, cur2).
            if ret2 \<noteq> 0 then Inr (1, uri2, str)
            else if peek cur2 = CHR '':''
            then (case minio_rfc3986_port uri2 (drop 1 cur2) of (ret3, uri3, cur3) \<Rightarrow>
                    if ret3 \<noteq> 0 then Inr (1, uri3, str) else Inr (0, uri3, cur3))
            else Inr (0, uri2, cur2)))"

subsection \<open>segments and paths\<close>

fun segment_loop :: "char \<Rightarrow> string \<Rightarrow> string" where
  "segment_loop forbid [] = []"
| "segment_loop forbid (c # cs) =
     (if ISA_PCHAR (c # cs) \<and> c \<noteq> forbid then segment_loop forbid (NEXT (c # cs)) else c # cs)"

definition minio_rfc3986_segment :: "string \<Rightarrow> char \<Rightarrow> int \<Rightarrow> int \<times> string" where
  "minio_rfc3986_segment str forbid allow_empty =
     (if \<not> ISA_PCHAR str then (if allow_empty = 0 then (1, str) else (0, str))
      else (0, segment_loop forbid str))"

text \<open>
  The loop \<open>while (*cur == '/') { cur++; ret = minio_rfc3986_segment(&cur, 0, 1); ... }\<close>
  of the four path matchers: the return code of the last segment and the cursor.
\<close>

function path_segments_loop :: "string \<Rightarrow> int \<times> string" where
  "path_segments_loop cur =
     (if peek cur = CHR ''/''
      then (case minio_rfc3986_segment (drop 1 cur) (CHR 0x00) 1 of (ret, cur') \<Rightarrow>
              if ret \<noteq> 0 then (ret, cur') else path_segments_loop cur')
      else (0, cur))"
  by pat_completeness auto
termination
proof (relation "measure length")
  show "wf (measure length)" by simp
next
  fix cur :: string and ret :: int and cur' :: string
  assume slash: "peek cur = CHR ''/''"
    and seg: "(ret, cur') = minio_rfc3986_segment (drop 1 cur) (CHR 0x00) 1"
  have shrink: "length (segment_loop f s) \<le> length s" for f s
    by (induction f s rule: segment_loop.induct) auto
  from slash have "cur \<noteq> []" by auto
  then have "length (drop 1 cur) < length cur" by simp
  moreover have "length cur' \<le> length (drop 1 cur)"
    using seg shrink [of "CHR 0x00" "drop 1 cur"]
    by (auto simp: minio_rfc3986_segment_def split: if_splits)
  ultimately show "(cur', cur) \<in> measure length" by simp
qed

text \<open>
  The block that the four path matchers share: release the old path and store the bytes
  between \<open>*str\<close> and \<open>cur\<close>, or \<open>NULL\<close> when there are none.
\<close>

definition store_path :: "bURI option \<Rightarrow> string \<Rightarrow> string \<Rightarrow> fault + bURI option" where
  "store_path uri str cur =
     on_record uri (\<lambda>u.
       and_then (release (path u)) (\<lambda>_.
         if length cur \<noteq> length str
         then and_then (capture u str cur) (\<lambda>p. Inr (u\<lparr>path := p\<rparr>))
         else Inr (u\<lparr>path := Null\<rparr>)))"

definition minio_rfc3986_path_ab_empty :: "bURI option \<Rightarrow> string \<Rightarrow> fault + matched" where
  "minio_rfc3986_path_ab_empty uri str =
     (case path_segments_loop str of (ret, cur) \<Rightarrow>
        if ret \<noteq> 0 then Inr (ret, uri, str)
        else and_then (store_path uri str cur) (\<lambda>uri'. Inr (ret, uri', cur)))"

text \<open>
  \<open>minio_rfc3986_path_absolute\<close> stores the path and moves \<open>*str\<close> also when the first
  segment is missing, and then returns the code of that segment.
\<close>

definition minio_rfc3986_path_absolute :: "bURI option \<Rightarrow> string \<Rightarrow> fault + matched" where
  "minio_rfc3986_path_absolute uri str =
     (if peek str \<noteq> CHR ''/'' then Inr (1, uri, str)
      else (case minio_rfc3986_segment (drop 1 str) (CHR 0x00) 0 of (ret, cur) \<Rightarrow>
        if ret = 0
        then (case path_segments_loop cur of (ret2, cur2) \<Rightarrow>
                if ret2 \<noteq> 0 then Inr (ret2, uri, str)
                else and_then (store_path uri str cur2) (\<lambda>uri'. Inr (ret2, uri', cur2)))
        else and_then (store_path uri str cur) (\<lambda>uri'. Inr (ret, uri', cur))))"

definition minio_rfc3986_path_rootless :: "bURI option \<Rightarrow> string \<Rightarrow> fault + matched" where
  "minio_rfc3986_path_rootless uri str =
     (case minio_rfc3986_segment str (CHR 0x00) 0 of (ret, cur) \<Rightarrow>
        if ret \<noteq> 0 then Inr (ret, uri, str)
        else (case path_segments_loop cur of (ret2, cur2) \<Rightarrow>
                if ret2 \<noteq> 0 then Inr (ret2, uri, str)
                else and_then (store_path uri str cur2) (\<lambda>uri'. Inr (0, uri', cur2))))"

definition minio_rfc3986_path_no_scheme :: "bURI option \<Rightarrow> string \<Rightarrow> fault + matched" where
  "minio_rfc3986_path_no_scheme uri str =
     (case minio_rfc3986_segment str CHR '':'' 0 of (ret, cur) \<Rightarrow>
        if ret \<noteq> 0 then Inr (ret, uri, str)
        else (case path_segments_loop cur of (ret2, cur2) \<Rightarrow>
                if ret2 \<noteq> 0 then Inr (ret2, uri, str)
                else and_then (store_path uri str cur2) (\<lambda>uri'. Inr (0, uri', cur2))))"

subsection \<open>hier-part, relative-ref, URI\<close>

text \<open>The branch \<open>path-empty\<close> of \<open>hier-part\<close> and \<open>relative-part\<close>.\<close>

definition path_empty :: "bURI option \<Rightarrow> fault + bURI option" where
  "path_empty uri = on_record uri (\<lambda>u. and_then (release (path u)) (\<lambda>_. Inr (u\<lparr>path := Null\<rparr>)))"

definition minio_rfc3986_hier_part :: "bURI option \<Rightarrow> string \<Rightarrow> fault + matched" where
  "minio_rfc3986_hier_part uri str =
     (if peek str = CHR ''/'' \<and> peek (drop 1 str) = CHR ''/''
      then and_then (minio_rfc3986_authority uri (drop 2 str)) (\<lambda>(ret, uri1, cur1).
             if ret \<noteq> 0 then Inr (ret, uri1, str)
             else and_then (minio_rfc3986_path_ab_empty uri1 cur1) (\<lambda>(ret2, uri2, cur2).
                    if ret2 \<noteq> 0 then Inr (ret2, uri2, str) else Inr (0, uri2, cur2)))
      else if peek str = CHR ''/''
      then and_then (minio_rfc3986_path_absolute uri str) (\<lambda>(ret, uri1, cur1).
             if ret \<noteq> 0 then Inr (ret, uri1, str) else Inr (0, uri1, cur1))
      else if ISA_PCHAR str
      then and_then (minio_rfc3986_path_rootless uri str) (\<lambda>(ret, uri1, cur1).
             if ret \<noteq> 0 then Inr (ret, uri1, str) else Inr (0, uri1, cur1))
      else and_then (path_empty uri) (\<lambda>uri'. Inr (0, uri', str)))"

text \<open>
  The end of both \<open>minio_rfc3986_relative_ref\<close> and \<open>minio_rfc3986\<close>, which is the same
  text in the two functions: \<open>[ "?" query ] [ "#" fragment ]\<close>, then the test for the end
  of the string with its \<open>URI_TRIM\<close>.
\<close>

definition query_fragment_end :: "bURI option \<Rightarrow> string \<Rightarrow> fault + (int \<times> bURI option)" where
  "query_fragment_end uri str =
     and_then (if peek str = CHR ''?'' then minio_rfc3986_query uri (drop 1 str)
               else Inr (0, uri, str)) (\<lambda>(ret, uri1, cur1).
       if ret \<noteq> 0 then Inr (ret, uri1)
       else and_then (if peek cur1 = CHR ''#'' then minio_rfc3986_fragment uri1 (drop 1 cur1)
                      else Inr (0, uri1, cur1)) (\<lambda>(ret2, uri2, cur2).
              if ret2 \<noteq> 0 then Inr (ret2, uri2)
              else if peek cur2 \<noteq> CHR 0x00
              then and_then (URI_TRIM uri2) (\<lambda>uri3. Inr (1, uri3))
              else Inr (0, uri2)))"

definition minio_rfc3986_relative_ref :: "bURI option \<Rightarrow> string \<Rightarrow> fault + (int \<times> bURI option)" where
  "minio_rfc3986_relative_ref uri str =
     (if peek str = CHR ''/'' \<and> peek (drop 1 str) = CHR ''/''
      then and_then (minio_rfc3986_authority uri (drop 2 str)) (\<lambda>(ret, uri1, cur1).
             if ret \<noteq> 0 then Inr (ret, uri1)
             else and_then (minio_rfc3986_path_ab_empty uri1 cur1) (\<lambda>(ret2, uri2, cur2).
                    if ret2 \<noteq> 0 then Inr (ret2, uri2) else query_fragment_end uri2 cur2))
      else if peek str = CHR ''/''
      then and_then (minio_rfc3986_path_absolute uri str) (\<lambda>(ret, uri1, cur1).
             if ret \<noteq> 0 then Inr (ret, uri1) else query_fragment_end uri1 cur1)
      else if ISA_PCHAR str
      then and_then (minio_rfc3986_path_no_scheme uri str) (\<lambda>(ret, uri1, cur1).
             if ret \<noteq> 0 then Inr (ret, uri1) else query_fragment_end uri1 cur1)
      else and_then (path_empty uri) (\<lambda>uri'. query_fragment_end uri' str))"

definition minio_rfc3986 :: "bURI option \<Rightarrow> string \<Rightarrow> fault + (int \<times> bURI option)" where
  "minio_rfc3986 uri str =
     and_then (minio_rfc3986_scheme uri str) (\<lambda>(ret, uri1, cur1).
       if ret \<noteq> 0 then Inr (ret, uri1)
       else if peek cur1 \<noteq> CHR '':'' then Inr (1, uri1)
       else and_then (minio_rfc3986_hier_part uri1 (drop 1 cur1)) (\<lambda>(ret2, uri2, cur2).
              if ret2 \<noteq> 0 then Inr (ret2, uri2) else query_fragment_end uri2 cur2))"

section \<open>The entry points\<close>

text \<open>The string argument of an entry point may be \<open>NULL\<close> (\<open>None\<close>).\<close>

definition minio_rfc3986_uri_reference ::
  "bURI option \<Rightarrow> string option \<Rightarrow> fault + (int \<times> bURI option)" where
  "minio_rfc3986_uri_reference uri str =
     (case str of
        None \<Rightarrow> Inr (- 1, uri)
      | Some s \<Rightarrow>
          and_then (URI_TRIM uri) (\<lambda>uri0.
          and_then (minio_rfc3986 uri0 s) (\<lambda>(ret, uri1).
            if ret \<noteq> 0
            then and_then (URI_TRIM uri1) (\<lambda>uri2.
                 and_then (minio_rfc3986_relative_ref uri2 s) (\<lambda>(ret2, uri3).
                   if ret2 \<noteq> 0 then and_then (URI_TRIM uri3) (\<lambda>uri4. Inr (ret2, uri4))
                   else Inr (ret2, uri3)))
            else Inr (ret, uri1))))"

definition minio_uri_parse_into ::
  "bURI option \<Rightarrow> string option \<Rightarrow> fault + (int \<times> bURI option)" where
  "minio_uri_parse_into uri str = minio_rfc3986_uri_reference uri str"

text \<open>
  \<open>minio_uri_parse(str, buri)\<close>: the return code and the record stored in \<open>*buri\<close>, if
  one is stored. The code of \<open>minio_uri_parse_into\<close> is assigned to \<open>ret\<close> and then
  overwritten.
\<close>

definition minio_uri_parse :: "string option \<Rightarrow> fault + (int \<times> bURI option)" where
  "minio_uri_parse str =
     (case str of
        None \<Rightarrow> Inr (- 1, None)
      | Some s \<Rightarrow>
          and_then (minio_uri_parse_into (Some minio_uri_new) str) (\<lambda>(ret, uri).
            case uri of
              None \<Rightarrow> Inl Null_Dereference
            | Some u \<Rightarrow> if scheme u = Freed then Inr (- 1, None) else Inr (0, Some u)))"

text \<open>
  The pointer that \<open>minio_uri_parse_raw\<close> returns: \<open>NULL\<close>, a record, or the marker that
  \<open>FREE(uri)\<close> has put into the local variable \<open>uri\<close>.
\<close>

datatype uri_ptr = URI_Null | URI_Record bURI | URI_Freed

definition minio_uri_parse_raw :: "string option \<Rightarrow> int \<Rightarrow> fault + uri_ptr" where
  "minio_uri_parse_raw str raw =
     (case str of
        None \<Rightarrow> Inr URI_Null
      | Some s \<Rightarrow>
          (let uri = (if raw \<noteq> 0 then minio_uri_new\<lparr>cleanup := cleanup minio_uri_new OR 2\<rparr>
                      else minio_uri_new)
           in and_then (minio_uri_parse_into (Some uri) str) (\<lambda>(ret, uri').
                if ret \<noteq> 0 then and_then (URI_TRIM uri') (\<lambda>_. Inr URI_Freed)
                else Inr (case uri' of None \<Rightarrow> URI_Null | Some u \<Rightarrow> URI_Record u))))"

section \<open>Facts about bytes and the codec\<close>

lemma of_char_lt: "of_char c < (256::int)"
  using pos_mod_bound [of 256 "of_char c :: int"] by (simp add: of_char_mod_256)

lemma c_int_c_char: "0 \<le> i \<Longrightarrow> i < 128 \<Longrightarrow> c_int (c_char i) = i"
  by (simp add: c_int_def c_char_def)

lemma c_char_c_int: "0 \<le> c_int c \<Longrightarrow> c_char (c_int c) = c"
  using of_char_lt [of c] by (auto simp: c_int_def c_char_def Let_def split: if_splits)

lemma c_int_lt: "c_int c < 128"
  using of_char_lt [of c] by (auto simp: c_int_def Let_def)

lemma pos_nz: "0 < c_int c \<Longrightarrow> c \<noteq> CHR 0x00"
  by (auto simp: c_int_def)

lemma hex_digit_hex:
  "0 \<le> v \<Longrightarrow> v \<le> 15 \<Longrightarrow> is_hex (hex_digit v) \<and> hex_value (hex_digit v) = v"
  by (auto simp: is_hex_def hex_digit_def hex_value_def c_int_c_char
      c_int_def [of "CHR ''0''"] c_int_def [of "CHR ''9''"] c_int_def [of "CHR ''a''"]
      c_int_def [of "CHR ''f''"] c_int_def [of "CHR ''A''"] c_int_def [of "CHR ''F''"])

lemma hex_digit_nz: "0 \<le> v \<Longrightarrow> v \<le> 15 \<Longrightarrow> hex_digit v \<noteq> CHR 0x00"
  using hex_digit_hex [of v] by (auto simp: is_hex_def c_int_def)

lemma and15: "(k::int) AND 15 = k mod 16"
  using take_bit_eq_mask [of 4 k] by (simp add: take_bit_eq_mod mask_eq_exp_minus_1)

text \<open>The two nibbles of a byte in \<open>0x01..0x7F\<close>, as the escaper computes them.\<close>

lemma nibbles:
  assumes "0 < c_int c"
  shows "0 \<le> c_uchar (drop_bit 4 (c_int c))" "c_uchar (drop_bit 4 (c_int c)) \<le> 15"
    "0 \<le> c_uchar (c_int c AND 15)" "c_uchar (c_int c AND 15) \<le> 15"
    "c_uchar (drop_bit 4 (c_int c)) * 16 + c_uchar (c_int c AND 15) = c_int c"
  using assms c_int_lt [of c] by (auto simp: c_uchar_def and15 drop_bit_eq_div)

lemma not_escaped_not_pct: "c = CHR ''@'' \<or> IS_UNRESERVED c \<Longrightarrow> c \<noteq> CHR ''%''"
  by (auto simp: IS_UNRESERVED_def IS_ALPHANUM_def IS_ALPHA_def IS_LOWALPHA_def IS_UPALPHA_def
      IS_DIGIT_def IS_MARK_def c_int_def)

lemma escape_loop_nonzero:
  "\<forall>c\<in>set s. 0 < c_int c \<Longrightarrow> CHR 0x00 \<notin> set (escape_loop s list)"
proof (induction s)
  case Nil
  then show ?case by simp
next
  case (Cons c s)
  then have pos: "0 < c_int c" and rest: "CHR 0x00 \<notin> set (escape_loop s list)" by simp_all
  from pos have "c \<noteq> CHR 0x00" by (auto dest: pos_nz)
  moreover have "hex_digit (c_uchar (drop_bit 4 (c_int c))) \<noteq> CHR 0x00"
    and "hex_digit (c_uchar (c_int c AND 15)) \<noteq> CHR 0x00"
    using nibbles [OF pos] by (simp_all add: hex_digit_nz)
  ultimately show ?case using rest by auto
qed

lemma unescape_escape_loop:
  "\<forall>c\<in>set s. 0 < c_int c \<Longrightarrow>
     unescape_loop (length (escape_loop s [])) (escape_loop s []) = Inr s"
proof (induction s)
  case Nil
  then show ?case by simp
next
  case (Cons c s)
  then have pos: "0 < c_int c"
    and IH: "unescape_loop (length (escape_loop s [])) (escape_loop s []) = Inr s" by simp_all
  from pos have nz: "c \<noteq> CHR 0x00" by (auto dest: pos_nz)
  show ?case
  proof (cases "c = CHR ''@'' \<or> IS_UNRESERVED c")
    case True
    then have "c \<noteq> CHR ''%''" by (rule not_escaped_not_pct)
    with True nz IH show ?thesis by (auto simp: and_then_def)
  next
    case False
    let ?h = "hex_digit (c_uchar (drop_bit 4 (c_int c)))"
    let ?l = "hex_digit (c_uchar (c_int c AND 15))"
    from False nz have esc: "escape_loop (c # s) [] = CHR ''%'' # ?h # ?l # escape_loop s []"
      by (simp add: strchr_def c_str_def)
    have hex: "is_hex ?h" "is_hex ?l"
      and val: "hex_value ?h * 16 + hex_value ?l = c_int c"
      using nibbles [OF pos] hex_digit_hex by simp_all
    from pos have conv: "c_char (c_int c) = c" by (simp add: c_char_c_int)
    show ?thesis
      unfolding esc by (simp add: hex val conv IH and_then_def)
  qed
qed

text \<open>
  Escaping with an empty exception list and unescaping again gives the string back when
  every byte lies in \<open>0x01..0x7F\<close>, where the promotion of \<open>char\<close> is positive.
\<close>

lemma ascii_round_trip:
  assumes "\<forall>c\<in>set s. 0 < c_int c"
  shows "minio_uri_string_unescape (minio_uri_string_escape (Some s) []) 0 = Inr (Some s)"
proof (cases s)
  case Nil
  then show ?thesis
    by (simp add: minio_uri_string_escape_def minio_uri_string_unescape_def strlen_def c_str_def
        and_then_def)
next
  case (Cons c cs)
  with assms have "0 < c_int c" by simp
  then have nz: "c \<noteq> CHR 0x00" by (auto dest: pos_nz)
  from assms have "CHR 0x00 \<notin> set s" by (auto dest: pos_nz)
  then have s: "c_str s = s" by (auto simp: c_str_def takeWhile_eq_all_conv)
  from escape_loop_nonzero [OF assms]
  have e: "c_str (escape_loop s []) = escape_loop s []"
    by (auto simp: c_str_def takeWhile_eq_all_conv)
  have "minio_uri_string_escape (Some s) [] = Some (escape_loop s [])"
    using Cons nz e s by (simp add: minio_uri_string_escape_def strlen_def)
  then show ?thesis
    using unescape_escape_loop [OF assms] e s
    by (simp add: minio_uri_string_unescape_def strlen_def and_then_def)
qed

lemma ascii_round_trip_example:
  "minio_uri_string_unescape (minio_uri_string_escape (Some ''a b%/~@'') []) 0
     = Inr (Some ''a b%/~@'')"
proof -
  have "\<forall>c\<in>set ''a b%/~@''. 0 < c_int c" by (simp add: c_int_def)
  then show ?thesis by (rule ascii_round_trip)
qed

section \<open>Facts about the authority matcher\<close>















section \<open>The claims\<close>

text \<open>
  In what follows a field is present when it is \<open>Ptr s\<close>. \<open>Null\<close> is a field that was
  never set, and \<open>Freed\<close> one that \<open>URI_TRIM\<close> has released.
\<close>

text \<open>
  C1. \<open>minio_uri_parse\<close> reports an error for the string \<open>NULL\<close>, and is claimed to
  report one for every string that the grammar does not match. The string of one space
  is not matched: \<open>minio_uri_parse_into\<close> returns 1 on it. \<open>minio_uri_parse\<close>
  nevertheless returns 0 on it and delivers the record, because the code of
  \<open>minio_uri_parse_into\<close> is overwritten.
\<close>

theorem minio_uri_parse_drops_error_code:
  "minio_uri_parse None = Inr (- 1, None) \<and>
   minio_uri_parse_into (Some minio_uri_new) (Some '' '') = Inr (1, Some minio_uri_new) \<and>
   minio_uri_parse (Some '' '') = Inr (0, Some minio_uri_new)"
  by code_simp

text \<open>
  C2. After a failed parse every component of the record is claimed to be absent or zero.
  On \<open>//:80 x\<close>, parsed into a new record, the parse fails with code 1 on the space, and
  the record keeps the port 80 that the authority matcher stored: \<open>URI_TRIM\<close> does not
  reset \<open>port\<close>. On \<open>//u@[x\<close> the parse fails with code 1 in the host matcher, and
  \<open>user\<close> is left holding the marker of \<open>FREE\<close>, which is not \<open>NULL\<close>.
\<close>

theorem failed_parse_keeps_port:
  "minio_uri_parse_into (Some minio_uri_new) (Some ''//:80 x'') =
     Inr (1, Some (minio_uri_new\<lparr>port := 80\<rparr>)) \<and>
   minio_uri_parse_into (Some minio_uri_new) (Some ''//u@[x'') =
     Inr (1, Some (minio_uri_new\<lparr>user := Freed\<rparr>))"
  by code_simp

text \<open>
  C3. Unescaping the escape of a string, with an empty exception list, is claimed to give
  the string back for all bytes \<open>0x01..0xFF\<close>. For the one-byte string \<open>0x80\<close> the
  escaper writes \<open>%/0\<close>: the high nibble is taken from the sign-extended \<open>char\<close>, and
  248 is not a hexadecimal digit value. Unescaping \<open>%/0\<close> leaves it as it is.
  (\<open>ascii_round_trip\<close> above: for bytes \<open>0x01..0x7F\<close> the round trip holds.)
\<close>

theorem escape_high_byte_not_restored:
  "minio_uri_string_escape (Some [CHR 0x80]) [] = Some ''%/0'' \<and>
   minio_uri_string_unescape (minio_uri_string_escape (Some [CHR 0x80]) []) 0 =
     Inr (Some ''%/0'')"
  by code_simp

text \<open>
  C4. After every parse, starting from any record, \<open>query\<close> and \<open>query_raw\<close> are claimed
  to be both present or both absent. Parsing \<open>?a\<close> into a new record sets both to \<open>a\<close>.
  Parsing \<open>x:\<close> into that record succeeds; the first \<open>URI_TRIM\<close> releases \<open>query\<close>
  and leaves \<open>query_raw\<close>, which \<open>URI_TRIM\<close> does not name, holding \<open>a\<close>.
\<close>

theorem reparse_releases_query_only:
  "minio_uri_parse_into (Some minio_uri_new) (Some ''?a'') =
     Inr (0, Some (minio_uri_new\<lparr>query := Ptr ''a'', query_raw := Ptr ''a''\<rparr>)) \<and>
   minio_uri_parse_into (Some (minio_uri_new\<lparr>query := Ptr ''a'', query_raw := Ptr ''a''\<rparr>))
       (Some ''x:'') =
     Inr (0, Some (minio_uri_new\<lparr>scheme := Ptr ''x'', query := Freed, query_raw := Ptr ''a''\<rparr>))"
  by code_simp

text \<open>
  C5. The dec-octet matcher is claimed to consume no three-digit run above 255. It
  returns 0 on \<open>256\<close> and on \<open>259\<close> and consumes the three digits: the last alternative
  tests the second digit against \<open>'5'\<close> where the third is meant.
\<close>

theorem dec_octet_accepts_256:
  "minio_rfc3986_dec_octet ''256'' = (0, []) \<and>
   minio_rfc3986_dec_octet ''259.1'' = (0, ''.1'')"
  by code_simp

text \<open>
  C6. A colon after the host with no digit behind it is claimed not to be an error. The
  port matcher returns 1 when no digit follows, and the authority matcher returns 1 in
  turn: the relative reference \<open>//h:/x\<close> fails with code 1, and on \<open>http://h:/x\<close> the
  absolute attempt fails in the same way, after which the relative attempt ends in the
  release of the marker that the first \<open>URI_TRIM\<close> left in \<open>scheme\<close>.
\<close>

theorem empty_port_is_rejected:
  "minio_rfc3986_port (Some minio_uri_new) ''/x'' = (1, Some minio_uri_new, ''/x'') \<and>
   minio_rfc3986_authority (Some minio_uri_new) ''h:/x'' =
     Inr (1, Some (minio_uri_new\<lparr>server := Ptr ''h''\<rparr>), ''h:/x'') \<and>
   minio_uri_parse_into (Some minio_uri_new) (Some ''//h:/x'') =
     Inr (1, Some (minio_uri_new\<lparr>server := Freed\<rparr>)) \<and>
   minio_uri_parse_into (Some minio_uri_new) (Some ''http://h:/x'') = Inl Invalid_Free"
  by code_simp




text \<open>
  C8. Parsing \<open>http://[::1]:8080/x\<close> into a new record, raw mode off, succeeds with
  \<open>server\<close> holding \<open>[::1]\<close>, brackets kept, \<open>port\<close> 8080 and \<open>path\<close> holding \<open>/x\<close>.
\<close>

theorem bracketed_host_with_port:
  "minio_uri_parse_into (Some minio_uri_new) (Some ''http://[::1]:8080/x'') =
     Inr (0, Some (minio_uri_new\<lparr>scheme := Ptr ''http'', server := Ptr ''[::1]'',
                                    port := 8080, path := Ptr ''/x''\<rparr>))"
  by code_simp

text \<open>
  C9. \<open>minio_uri_parse_raw\<close> on \<open>http://h/%41\<close> with \<open>raw = 1\<close> returns a record whose
  \<open>path\<close> holds \<open>/%41\<close>; with \<open>raw = 0\<close> the \<open>path\<close> holds \<open>/A\<close>.
\<close>

theorem raw_mode_keeps_escapes:
  "minio_uri_parse_raw (Some ''http://h/%41'') 1 =
     Inr (URI_Record (minio_uri_new\<lparr>scheme := Ptr ''http'', server := Ptr ''h'',
                                      path := Ptr ''/%41'', cleanup := 2\<rparr>)) \<and>
   minio_uri_parse_raw (Some ''http://h/%41'') 0 =
     Inr (URI_Record (minio_uri_new\<lparr>scheme := Ptr ''http'', server := Ptr ''h'',
                                      path := Ptr ''/A''\<rparr>))"
  by code_simp

text \<open>
  C10. Parsing the empty string into a new record returns 0 and sets no component:
  \<open>scheme\<close>, \<open>server\<close>, \<open>user\<close>, \<open>path\<close>, \<open>query\<close>, \<open>query_raw\<close> and \<open>fragment\<close> stay
  \<open>NULL\<close> and \<open>port\<close> stays 0, whatever the mode bits of \<open>cleanup\<close> are.
\<close>

theorem empty_string_parses:
  "minio_uri_parse_into (Some (minio_uri_new\<lparr>cleanup := c\<rparr>)) (Some '''') =
     Inr (0, Some (minio_uri_new\<lparr>cleanup := c\<rparr>))"
  by (simp add: minio_uri_parse_into_def minio_rfc3986_uri_reference_def URI_TRIM_def
      on_record_def and_then_def minio_uri_new_def minio_rfc3986_def minio_rfc3986_scheme_def
      ISA_ALPHA_def c_int_def minio_rfc3986_relative_ref_def ISA_PCHAR_def ISA_UNRESERVED_def
      ISA_DIGIT_def ISA_PCT_ENCODED_def ISA_SUB_DELIM_def path_empty_def
      query_fragment_end_def)

end
